theory Spec2Isabelle
  imports Complex_Main "HOL-Library.Word"
begin

unbundle bit_operations_syntax

section \<open>Host-side driver of the dual-axis positioner: data model\<close>

text \<open>
  The driver is \<^verbatim>\<open>src/positioner.py\<close> (class \<^verbatim>\<open>Positioner\<close>) with the
  status registers of \<^verbatim>\<open>src/status.py\<close>. Python integers are unbounded and are
  modelled as \<^typ>\<open>int\<close>; a byte of a payload is an \<^typ>\<open>8 word\<close>; the two
  \<^verbatim>\<open>ctypes\<close> registers are a \<^typ>\<open>32 word\<close> and a \<^typ>\<open>64 word\<close>.
  A leading underscore of a Python name is dropped (\<^verbatim>\<open>_get_answer\<close> is
  \<open>get_answer\<close>).
\<close>

type_synonym byte = "8 word"

text \<open>The exceptions the modelled code can raise.\<close>

datatype py_error = KeyError | StructError | FileNotFoundError

text \<open>
  A \<^verbatim>\<open>can.Message\<close> as the driver builds and reads it. The \<^verbatim>\<open>timestamp\<close>
  argument (wall-clock time of the call) is left out.
\<close>

record message =
  arbitration_id :: int
  data :: "byte list"
  is_extended_id :: bool

text \<open>What one call of \<^verbatim>\<open>bus.recv(timeout)\<close> does: nothing arrived within the
  wait, a frame arrived, or the call raised.\<close>

datatype recv_event = RecvNone | RecvMsg message | RecvRaise string

text \<open>
  Everything outside \<^verbatim>\<open>positioner.py\<close> and \<^verbatim>\<open>status.py\<close> that the driver reads.
  \<^item> \<open>COMMANDS\<close> and \<open>RESPONSE_CODE_NUMBER\<close> are the two dictionaries imported from
    the module \<^verbatim>\<open>commands\<close>, which is not part of the sources at hand: they are
    parameters.
  \<^item> \<open>bus_recv\<close> is the channel and the device behind it: what the next
    \<^verbatim>\<open>recv\<close> returns, given the frames handed to \<^verbatim>\<open>send\<close> so far and the number of
    \<^verbatim>\<open>recv\<close> calls made so far.
  \<^item> \<open>bus_send_error\<close>: whether \<^verbatim>\<open>bus.send\<close> raises, given the frames handed to
    it so far (the last one is the frame being sent), and the text of the exception.
  \<^item> \<open>zlib_crc32\<close> is \<^verbatim>\<open>zlib.crc32(data, value)\<close>; \<open>files\<close> is the file system.
  \<^item> \<open>float_round\<close> rounds a real number to the Python \<^verbatim>\<open>float\<close> that an arithmetic
    operation returns for it.
\<close>

record env =
  COMMANDS :: "string \<rightharpoonup> int"
  RESPONSE_CODE_NUMBER :: "int \<rightharpoonup> string"
  bus_recv :: "message list \<Rightarrow> nat \<Rightarrow> recv_event"
  bus_send_error :: "message list \<Rightarrow> string option"
  zlib_crc32 :: "byte list \<Rightarrow> int \<Rightarrow> int"
  files :: "string \<rightharpoonup> byte list"
  float_round :: "real \<Rightarrow> real"

text \<open>
  The \<^verbatim>\<open>Positioner\<close> object together with the observable effects of its calls:
  \<^item> \<open>canid\<close>, \<open>alpha_position\<close>, \<open>beta_position\<close>, \<open>bootloader_status\<close>
    (\<^verbatim>\<open>.asInt\<close>) and \<open>status\<close> (\<^verbatim>\<open>.asInt\<close>) are the attributes set by
    \<^verbatim>\<open>__init__\<close>;
  \<^item> \<open>sent\<close> lists the frames handed to \<^verbatim>\<open>bus.send\<close>, oldest first;
  \<^item> \<open>recv_calls\<close> lists the timeout argument of every \<^verbatim>\<open>bus.recv\<close> call;
  \<^item> \<open>log\<close> lists the lines logged at level error or info (the logger's level is
    INFO, so debug lines are not emitted);
  \<^item> \<open>sleeps\<close> lists the arguments of the \<^verbatim>\<open>time.sleep\<close> calls, in seconds.
\<close>

record positioner =
  canid :: int
  alpha_position :: int
  beta_position :: int
  bootloader_status :: "32 word"
  status :: "64 word"
  sent :: "message list"
  recv_calls :: "nat list"
  log :: "string list"
  sleeps :: "rat list"

definition CAN_ID_BIT_SHIFT :: nat where
  "CAN_ID_BIT_SHIFT = 18"

definition COMMAND_BIT_SHIFT :: nat where
  "COMMAND_BIT_SHIFT = 10"

definition POSITION_RESOLUTION :: int where
  "POSITION_RESOLUTION = 2 ^ 30"

definition TIME_RESOLUTION :: int where
  "TIME_RESOLUTION = 2000"

text \<open>\<^verbatim>\<open>Positioner.__init__(bus, canid)\<close>: both status unions start zeroed.\<close>

definition init_positioner :: "int \<Rightarrow> positioner" where
  "init_positioner cid =
     \<lparr>canid = cid, alpha_position = 0, beta_position = 0, bootloader_status = 0,
      status = 0, sent = [], recv_calls = [], log = [], sleeps = []\<rparr>"

subsection \<open>Frame identifiers\<close>

text \<open>\<^verbatim>\<open>_build_frame_id\<close>: a command missing from \<open>COMMANDS\<close> raises \<^verbatim>\<open>KeyError\<close>.\<close>

definition build_frame_id :: "env \<Rightarrow> positioner \<Rightarrow> string \<Rightarrow> py_error + int" where
  "build_frame_id e s command =
     (case COMMANDS e command of
        None \<Rightarrow> Inl KeyError
      | Some opcode \<Rightarrow>
          Inr (push_bit CAN_ID_BIT_SHIFT (canid s) + push_bit COMMAND_BIT_SHIFT opcode))"

text \<open>\<^verbatim>\<open>_get_response_code\<close>: a code missing from \<open>RESPONSE_CODE_NUMBER\<close> raises
  \<^verbatim>\<open>KeyError\<close>.\<close>

definition get_response_code :: "env \<Rightarrow> int \<Rightarrow> py_error + string" where
  "get_response_code e busid =
     (case RESPONSE_CODE_NUMBER e (busid AND (2 ^ COMMAND_BIT_SHIFT - 1)) of
        None \<Rightarrow> Inl KeyError
      | Some name \<Rightarrow> Inr name)"



subsection \<open>Payload packing (\<^verbatim>\<open>struct\<close>)\<close>

text \<open>The \<open>n\<close> little-endian bytes of the two's complement of \<open>v\<close>.\<close>

definition le_bytes :: "nat \<Rightarrow> int \<Rightarrow> byte list" where
  "le_bytes n v = map (\<lambda>i. word_of_int (drop_bit (8 * i) v)) [0..<n]"


text \<open>\<^verbatim>\<open>struct.pack('<ii', a, b)\<close> and \<^verbatim>\<open>struct.pack('<II', a, b)\<close>: a value outside
  the field's range raises \<^verbatim>\<open>struct.error\<close>.\<close>

definition struct_pack_ii :: "int \<Rightarrow> int \<Rightarrow> py_error + byte list" where
  "struct_pack_ii a b =
     (if - (2 ^ 31) \<le> a \<and> a < 2 ^ 31 \<and> - (2 ^ 31) \<le> b \<and> b < 2 ^ 31
      then Inr (le_bytes 4 a @ le_bytes 4 b) else Inl StructError)"

definition struct_pack_II :: "int \<Rightarrow> int \<Rightarrow> py_error + byte list" where
  "struct_pack_II a b =
     (if 0 \<le> a \<and> a < 2 ^ 32 \<and> 0 \<le> b \<and> b < 2 ^ 32
      then Inr (le_bytes 4 a @ le_bytes 4 b) else Inl StructError)"


subsection \<open>Unit conversions\<close>

text \<open>Python's \<^verbatim>\<open>round(x)\<close> of a float: the nearest integer, a tie going to the even
  one.\<close>

definition py_round :: "real \<Rightarrow> int" where
  "py_round x =
     (let f = \<lfloor>x\<rfloor>; d = x - of_int f
      in if d < 1 / 2 then f else if 1 / 2 < d then f + 1 else if even f then f else f + 1)"

text \<open>
  The four conversions. Every \<^verbatim>\<open>/\<close> and \<^verbatim>\<open>*\<close> of the source is a float
  operation: it returns its exact result rounded to a float, which is what the
  parameter \<open>fl\<close> does.
\<close>

definition angle_to_position :: "(real \<Rightarrow> real) \<Rightarrow> real \<Rightarrow> int" where
  "angle_to_position fl angle = py_round (fl (fl (angle / 360) * of_int POSITION_RESOLUTION))"

definition position_to_angle :: "(real \<Rightarrow> real) \<Rightarrow> int \<Rightarrow> real" where
  "position_to_angle fl position =
     fl (fl (of_int position / of_int POSITION_RESOLUTION) * 360)"

definition seconds_to_timestamp :: "(real \<Rightarrow> real) \<Rightarrow> real \<Rightarrow> int" where
  "seconds_to_timestamp fl seconds = py_round (fl (seconds * of_int TIME_RESOLUTION))"

definition timestamp_to_seconds :: "(real \<Rightarrow> real) \<Rightarrow> int \<Rightarrow> real" where
  "timestamp_to_seconds fl timestamp = fl (of_int timestamp / of_int TIME_RESOLUTION)"

text \<open>The rounding of IEEE 754 binary64 arithmetic (to nearest), overflow apart: the
  relative error is at most \<open>2\<^sup>-\<^sup>5\<^sup>3\<close>, or the absolute error at most half the spacing
  \<open>2\<^sup>-\<^sup>1\<^sup>0\<^sup>7\<^sup>4\<close> of the subnormal numbers.\<close>

definition binary64_rounding :: "(real \<Rightarrow> real) \<Rightarrow> bool" where
  "binary64_rounding fl \<longleftrightarrow> (\<forall>x. \<bar>fl x - x\<bar> \<le> \<bar>x\<bar> / 2 ^ 53 + 1 / 2 ^ 1075)"

text \<open>A position is a signed 32-bit count on the wire.\<close>

definition int32 :: "int \<Rightarrow> bool" where
  "int32 v \<longleftrightarrow> - (2 ^ 31) \<le> v \<and> v < 2 ^ 31"

subsection \<open>Status registers (\<^verbatim>\<open>status.py\<close>)\<close>

text \<open>
  The \<^verbatim>\<open>_fields_\<close> of the two \<^verbatim>\<open>ctypes.LittleEndianStructure\<close> classes, in their
  order. Every field is one bit wide; a little-endian structure allocates its bit
  fields from the least significant bit of the storage unit, so the field at
  position \<open>i\<close> of the list is bit \<open>i\<close> of the integer that shares the union
  (\<^verbatim>\<open>asInt\<close>).
\<close>

definition BootloaderFlagBits :: "string list" where
  "BootloaderFlagBits =
     [''init'', ''timeout'', ''reserve2'', ''reserve3'', ''reserve4'', ''reserve5'',
      ''reserve6'', ''reserve7'', ''config_changed'', ''bsettings_changed'', ''reserve10'',
      ''reserve11'', ''reserve12'', ''reserve13'', ''reserve14'', ''reserve15'',
      ''receiving_firmware'', ''reserve17'', ''reserve18'', ''reserve19'', ''reserve20'',
      ''reserve21'', ''reserve22'', ''reserve23'', ''firmware_received'', ''firmware_ok'',
      ''firmware_bad'', ''reserve27'', ''reserve28'', ''reserve29'', ''reserve30'',
      ''reserve31'']"

definition PositionerFlagBits :: "string list" where
  "PositionerFlagBits =
     [''init'', ''config_changed'', ''bsettings_changed'', ''data_streaming'',
      ''receiving_trajectory'', ''trajectory_alpha_received'', ''trajectory_beta_received'',
      ''low_power_after_move'', ''displacement_completed'', ''displacement_completed_alpha'',
      ''displacement_completed_beta'', ''collision_alpha'', ''collision_beta'',
      ''closed_loop_alpha'', ''closed_loop_beta'', ''precise_positioning_alpha'',
      ''precise_positioning_beta'', ''collision_detect_alpha_disable'',
      ''collision_detect_beta_disable'', ''motor_calibration'', ''motor_alpha_calibrated'',
      ''motor_beta_calibrated'', ''datum_calibration'', ''datum_alpha_calibrated'',
      ''datum_beta_calibrated'', ''datum_initialization'', ''datum_alpha_initialized'',
      ''datum_beta_initialized'', ''hall_alpha_disable'', ''hall_beta_disable'',
      ''cogging_calibration'', ''cogging_alpha_calibrated'', ''cogging_beta_calibrated'',
      ''estimated_position'', ''position_restored'', ''switch_off_after_move'',
      ''calibration_saved'', ''precise_move_in_open_loop_alpha'',
      ''precise_move_in_open_loop_beta'', ''switch_off_hall_after_move'', ''reserve41'',
      ''reserve42'', ''reserve43'', ''reserve44'', ''reserve45'', ''reserve46'', ''reserve47'',
      ''reserve48'', ''reserve49'', ''reserve50'', ''reserve51'', ''reserve52'', ''reserve53'',
      ''reserve54'', ''reserve55'', ''reserve56'', ''reserve57'', ''reserve58'', ''reserve59'',
      ''reserve60'', ''reserve61'', ''reserve62'', ''reserve63'', ''reserve64'']"

text \<open>The position of a field in a field list.\<close>

fun field_index :: "string \<Rightarrow> string list \<Rightarrow> nat option" where
  "field_index name [] = None"
| "field_index name (f # fs) =
     (if name = f then Some 0 else map_option Suc (field_index name fs))"

text \<open>Reading the attribute \<open>name\<close> of a union whose integer view is \<open>raw\<close>: 0 or 1,
  or nothing when the structure has no such field (\<^verbatim>\<open>AttributeError\<close>).\<close>

definition flag_value :: "string list \<Rightarrow> 'a::len word \<Rightarrow> string \<Rightarrow> nat option" where
  "flag_value names raw name =
     map_option (\<lambda>i. if bit raw i then 1 else 0) (field_index name names)"

definition bootloader_flag :: "32 word \<Rightarrow> string \<Rightarrow> nat option" where
  "bootloader_flag raw name = flag_value BootloaderFlagBits raw name"

definition positioner_flag :: "64 word \<Rightarrow> string \<Rightarrow> nat option" where
  "positioner_flag raw name = flag_value PositionerFlagBits raw name"

subsection \<open>Sending a command and waiting for the answer\<close>

text \<open>\<^verbatim>\<open>_send_command\<close>: the identifier is built outside the \<^verbatim>\<open>try\<close>, so an unknown
  command raises; an exception of \<^verbatim>\<open>bus.send\<close> is caught and logged.\<close>

definition send_command ::
  "env \<Rightarrow> string \<Rightarrow> byte list option \<Rightarrow> positioner \<Rightarrow> (py_error + unit) \<times> positioner" where
  "send_command e command extra_data s =
     (let extra = (case extra_data of None \<Rightarrow> [] | Some d \<Rightarrow> d)
      in case build_frame_id e s command of
           Inl err \<Rightarrow> (Inl err, s)
         | Inr cid \<Rightarrow>
             (let msg = \<lparr>arbitration_id = cid, data = extra, is_extended_id = True\<rparr>;
                  s1 = s\<lparr>sent := sent s @ [msg]\<rparr>
              in case bus_send_error e (sent s1) of
                   None \<Rightarrow> (Inr (), s1)
                 | Some exc \<Rightarrow>
                     (Inr (), s1\<lparr>log := log s1 @ [''Error sending message'', exc]\<rparr>)))"

text \<open>\<^verbatim>\<open>_get_answer\<close>: the loop \<^verbatim>\<open>for i in range(5)\<close> with \<open>n\<close> rounds left. Each round
  calls \<^verbatim>\<open>bus.recv(1)\<close>.\<close>

fun get_answer_loop :: "env \<Rightarrow> nat \<Rightarrow> positioner \<Rightarrow> message option \<times> positioner" where
  "get_answer_loop e 0 s = (None, s)"
| "get_answer_loop e (Suc n) s =
     (let s1 = s\<lparr>recv_calls := recv_calls s @ [1]\<rparr>
      in case bus_recv e (sent s) (length (recv_calls s)) of
           RecvMsg answer \<Rightarrow> (Some answer, s1)
         | RecvNone \<Rightarrow> get_answer_loop e n s1
         | RecvRaise exc \<Rightarrow> (None, s1\<lparr>log := log s1 @ [''Error getting message'', exc]\<rparr>))"

definition get_answer :: "env \<Rightarrow> positioner \<Rightarrow> message option \<times> positioner" where
  "get_answer e s = get_answer_loop e 5 s"


subsection \<open>Paired alpha/beta commands\<close>








subsection \<open>Trajectory upload\<close>

text \<open>The two \<^verbatim>\<open>for coordinate in ...\<close> loops of \<^verbatim>\<open>send_trajectory\<close>; they differ in
  the text of a debug line only. A waypoint is the pair (angle in degrees, time in
  seconds).\<close>

fun send_points ::
  "env \<Rightarrow> (real \<times> real) list \<Rightarrow> positioner \<Rightarrow> (py_error + unit) \<times> positioner" where
  "send_points e [] s = (Inr (), s)"
| "send_points e (coordinate # rest) s =
     (let position = angle_to_position (float_round e) (fst coordinate);
          timestamp = seconds_to_timestamp (float_round e) (snd coordinate)
      in case struct_pack_ii position timestamp of
           Inl err \<Rightarrow> (Inl err, s)
         | Inr packetdata \<Rightarrow>
             (case send_command e ''SEND_TRAJECTORY_DATA'' (Some packetdata) s of
                (Inl err, s1) \<Rightarrow> (Inl err, s1)
              | (Inr _, s1) \<Rightarrow>
                  (case get_answer e s1 of
                     (None, s2) \<Rightarrow> send_points e rest s2
                   | (Some answer, s2) \<Rightarrow>
                       (case get_response_code e (arbitration_id answer) of
                          Inl err \<Rightarrow> (Inl err, s2)
                        | Inr result \<Rightarrow> send_points e rest s2))))"

definition send_trajectory ::
  "env \<Rightarrow> (real \<times> real) list \<Rightarrow> (real \<times> real) list \<Rightarrow> positioner
     \<Rightarrow> (py_error + unit) \<times> positioner" where
  "send_trajectory e alpha beta s =
     (let alpha_nb_points = int (length alpha); beta_nb_points = int (length beta)
      in case struct_pack_ii alpha_nb_points beta_nb_points of
           Inl err \<Rightarrow> (Inl err, s)
         | Inr packetdata \<Rightarrow>
       (case send_command e ''SEND_TRAJECTORY_NEW'' (Some packetdata) s of
          (Inl err, s1) \<Rightarrow> (Inl err, s1)
        | (Inr _, s1) \<Rightarrow>
       (case get_answer e s1 of
          (None, s2) \<Rightarrow> (Inr (), s2\<lparr>log := log s2 @ [''Error with send_trajectory'']\<rparr>)
        | (Some answer, s2) \<Rightarrow>
       (case get_response_code e (arbitration_id answer) of
          Inl err \<Rightarrow> (Inl err, s2)
        | Inr result \<Rightarrow>
       (case send_points e alpha s2 of
          (Inl err, s3) \<Rightarrow> (Inl err, s3)
        | (Inr _, s3) \<Rightarrow>
       (case send_points e beta s3 of
          (Inl err, s4) \<Rightarrow> (Inl err, s4)
        | (Inr _, s4) \<Rightarrow>
       (case send_command e ''SEND_TRAJECTORY_DATA_END'' None s4 of
          (Inl err, s5) \<Rightarrow> (Inl err, s5)
        | (Inr _, s5) \<Rightarrow>
       (case get_answer e s5 of
          (None, s6) \<Rightarrow> (Inr (), s6)
        | (Some answer2, s6) \<Rightarrow>
       (case get_response_code e (arbitration_id answer2) of
          Inl err \<Rightarrow> (Inl err, s6)
        | Inr result2 \<Rightarrow> (Inr (), s6))))))))))"

subsection \<open>Firmware upgrade\<close>

text \<open>Iterating over a file opened in binary mode yields its lines, each ending
  with its newline byte (the last one may lack it).\<close>

fun file_lines :: "byte list \<Rightarrow> byte list list" where
  "file_lines [] = []"
| "file_lines (b # bs) =
     (if b = 10 then [b] # file_lines bs
      else (case file_lines bs of [] \<Rightarrow> [[b]] | l # ls \<Rightarrow> (b # l) # ls))"

text \<open>\<^verbatim>\<open>_crc\<close>, on the content of the file.\<close>

definition crc :: "env \<Rightarrow> byte list \<Rightarrow> int" where
  "crc e content = foldl (\<lambda>result eachLine. zlib_crc32 e eachLine result) 0 (file_lines content)"

text \<open>
  The \<^verbatim>\<open>while True\<close> loop of \<^verbatim>\<open>firmware_upgrade\<close>. \<open>f\<close> is what is left of the file
  to read, so \<^verbatim>\<open>f.read(8)\<close> is \<open>take 8 f\<close> and leaves \<open>drop 8 f\<close>. The loop has no
  exit but \<^verbatim>\<open>transfered_data == filesize\<close>: the result is \<open>None\<close> when it runs
  forever.
\<close>

partial_function (option) firmware_data_loop ::
  "env \<Rightarrow> byte list \<Rightarrow> nat \<Rightarrow> nat \<Rightarrow> positioner \<Rightarrow> ((py_error + unit) \<times> positioner) option" where
  "firmware_data_loop e f transfered_data filesize s =
     (case send_command e ''FIRMWARE_DATA'' (Some (take 8 f)) s of
        (Inl err, s1) \<Rightarrow> Some (Inl err, s1)
      | (Inr u, s1) \<Rightarrow>
          (if transfered_data + length (take 8 f) = filesize
           then Some (Inr (), snd (get_answer e s1))
           else firmware_data_loop e (drop 8 f) (transfered_data + length (take 8 f)) filesize
                  (snd (get_answer e s1))))"

definition firmware_upgrade ::
  "env \<Rightarrow> string \<Rightarrow> positioner \<Rightarrow> ((py_error + unit) \<times> positioner) option" where
  "firmware_upgrade e filename s =
     (case files e filename of
        None \<Rightarrow> Some (Inl FileNotFoundError, s)
      | Some content \<Rightarrow>
       (let filesize = length content; checksum = crc e content
        in case struct_pack_II (int filesize) checksum of
             Inl err \<Rightarrow> Some (Inl err, s)
           | Inr packetdata \<Rightarrow>
       (case send_command e ''SEND_NEW_FIRMWARE'' (Some packetdata) s of
          (Inl err, s1) \<Rightarrow> Some (Inl err, s1)
        | (Inr _, s1) \<Rightarrow>
       (case get_answer e s1 of
          (None, s2) \<Rightarrow>
            Some (Inr (), s2\<lparr>log := log s2 @ [''Error with firmware upgrade command'']\<rparr>)
        | (Some answer, s2) \<Rightarrow>
       (case get_response_code e (arbitration_id answer) of
          Inl err \<Rightarrow> Some (Inl err, s2)
        | Inr result \<Rightarrow>
       (case firmware_data_loop e content 0 filesize s2 of
          None \<Rightarrow> None
        | Some (Inl err, s3) \<Rightarrow> Some (Inl err, s3)
        | Some (Inr _, s3) \<Rightarrow>
            Some (Inr (), s3\<lparr>log := log s3 @ [''firmware upgrade done'']\<rparr>)))))))"

text \<open>The payloads expected on the wire: the content cut into pieces of 8 bytes, the
  last one holding what is left (an empty file is one empty piece).\<close>

function chunks8 :: "byte list \<Rightarrow> byte list list" where
  "chunks8 f = (if length f \<le> 8 then [f] else take 8 f # chunks8 (drop 8 f))"
  by pat_completeness auto
termination
  by (relation "measure length") auto

subsection \<open>Waiting for the end of a move\<close>




subsection \<open>Tables and channels of the examples\<close>

text \<open>A channel on which nothing ever arrives, with empty tables and exact
  arithmetic; the examples below change the fields they need.\<close>

definition quiet_env :: env where
  "quiet_env =
     \<lparr>COMMANDS = Map.empty, RESPONSE_CODE_NUMBER = Map.empty,
      bus_recv = (\<lambda>frames n. RecvNone), bus_send_error = (\<lambda>frames. None),
      zlib_crc32 = (\<lambda>bs r. r), files = Map.empty, float_round = (\<lambda>x. x)\<rparr>"



text \<open>The frame the driver builds for an address, an opcode and a payload.\<close>

definition frame :: "int \<Rightarrow> int \<Rightarrow> byte list \<Rightarrow> message" where
  "frame address opcode payload =
     \<lparr>arbitration_id = push_bit 18 address + push_bit 10 opcode, data = payload,
      is_extended_id = True\<rparr>"

text \<open>A command table for the examples (the opcodes are made up), and a response
  table that knows the code 0 only.\<close>

definition example_commands :: "string \<rightharpoonup> int" where
  "example_commands =
     map_of [(''GET_STATUS'', 3), (''SEND_TRAJECTORY_NEW'', 10), (''SEND_TRAJECTORY_DATA'', 11),
             (''SEND_TRAJECTORY_DATA_END'', 12), (''SET_ALPHA_CLOSED_LOOP'', 116),
             (''SET_BETA_CLOSED_LOOP'', 117), (''SEND_NEW_FIRMWARE'', 200),
             (''FIRMWARE_DATA'', 201)]"

definition example_responses :: "int \<rightharpoonup> string" where
  "example_responses = [0 \<mapsto> ''COMMAND_ACCEPTED'']"

text \<open>A device that never answers.\<close>

definition silent_env :: env where
  "silent_env =
     quiet_env\<lparr>COMMANDS := example_commands, RESPONSE_CODE_NUMBER := example_responses\<rparr>"



text \<open>A channel whose third poll brings a frame.\<close>

definition third_poll_env :: env where
  "third_poll_env =
     silent_env\<lparr>bus_recv := (\<lambda>frames n.
        if n = 2 then RecvMsg (frame 5 3 []) else RecvNone)\<rparr>"



text \<open>Every frame the channel can deliver carries a response code of the table.\<close>

definition known_replies :: "env \<Rightarrow> bool" where
  "known_replies e \<longleftrightarrow>
     (\<forall>frames n m. bus_recv e frames n = RecvMsg m \<longrightarrow>
        RESPONSE_CODE_NUMBER e (arbitration_id m mod 2 ^ 10) \<noteq> None)"

text \<open>The payload expected for a waypoint: position counts, then timestamp, each as
  4 little-endian bytes; and the condition that both fit the signed 32-bit fields.\<close>

definition waypoint_payload :: "(real \<Rightarrow> real) \<Rightarrow> real \<times> real \<Rightarrow> byte list" where
  "waypoint_payload fl coordinate =
     le_bytes 4 (angle_to_position fl (fst coordinate))
     @ le_bytes 4 (seconds_to_timestamp fl (snd coordinate))"

definition waypoint_fits :: "(real \<Rightarrow> real) \<Rightarrow> real \<times> real \<Rightarrow> bool" where
  "waypoint_fits fl coordinate \<longleftrightarrow>
     int32 (angle_to_position fl (fst coordinate))
     \<and> int32 (seconds_to_timestamp fl (snd coordinate))"

text \<open>A device that answers every poll with the response code 0, and one that does
  so until a second frame is sent and is silent afterwards.\<close>

definition acking_env :: env where
  "acking_env =
     silent_env\<lparr>bus_recv := (\<lambda>frames n.
        RecvMsg \<lparr>arbitration_id = 1310720, data = [], is_extended_id = True\<rparr>)\<rparr>"

definition first_answer_env :: env where
  "first_answer_env =
     silent_env\<lparr>bus_recv := (\<lambda>frames n.
        if length frames \<le> 1
        then RecvMsg \<lparr>arbitration_id = 1310720, data = [], is_extended_id = True\<rparr>
        else RecvNone)\<rparr>"

section \<open>Frame identifiers: properties\<close>








section \<open>The receive step\<close>

lemma get_answer_loop_unchanged:
  "sent (snd (get_answer_loop e n s)) = sent s
   \<and> status (snd (get_answer_loop e n s)) = status s
   \<and> canid (snd (get_answer_loop e n s)) = canid s
   \<and> sleeps (snd (get_answer_loop e n s)) = sleeps s"
  by (induction n arbitrary: s) (auto simp: Let_def split: recv_event.splits)

lemma get_answer_loop_calls:
  "\<exists>k\<le>n. recv_calls (snd (get_answer_loop e n s)) = recv_calls s @ replicate k 1"
proof (induction n arbitrary: s)
  case 0
  then show ?case by simp
next
  case (Suc n)
  let ?s1 = "s\<lparr>recv_calls := recv_calls s @ [1]\<rparr>"
  show ?case
  proof (cases "bus_recv e (sent s) (length (recv_calls s))")
    case RecvNone
    from Suc.IH [of ?s1] obtain k where k: "k \<le> n"
      "recv_calls (snd (get_answer_loop e n ?s1)) = recv_calls ?s1 @ replicate k 1"
      by blast
    then have "recv_calls (snd (get_answer_loop e (Suc n) s))
               = recv_calls s @ replicate (Suc k) 1"
      using RecvNone by (simp add: Let_def)
    with k(1) show ?thesis by (metis Suc_le_mono)
  next
    case (RecvMsg m)
    then have "recv_calls (snd (get_answer_loop e (Suc n) s))
               = recv_calls s @ replicate (Suc 0) 1"
      by (simp add: Let_def)
    then show ?thesis by (metis Suc_leI zero_less_Suc)
  next
    case (RecvRaise exc)
    then have "recv_calls (snd (get_answer_loop e (Suc n) s))
               = recv_calls s @ replicate (Suc 0) 1"
      by (simp add: Let_def)
    then show ?thesis by (metis Suc_leI zero_less_Suc)
  qed
qed

lemma get_answer_loop_none:
  "(\<forall>i<n. bus_recv e (sent s) (length (recv_calls s) + i) = RecvNone) \<Longrightarrow>
   get_answer_loop e n s = (None, s\<lparr>recv_calls := recv_calls s @ replicate n 1\<rparr>)"
proof (induction n arbitrary: s)
  case 0
  then show ?case by simp
next
  case (Suc n)
  let ?s1 = "s\<lparr>recv_calls := recv_calls s @ [1]\<rparr>"
  from Suc.prems have first: "bus_recv e (sent s) (length (recv_calls s)) = RecvNone"
    by (metis add.right_neutral zero_less_Suc)
  have "\<forall>i<n. bus_recv e (sent ?s1) (length (recv_calls ?s1) + i) = RecvNone"
  proof (intro allI impI)
    fix i assume "i < n"
    then have "bus_recv e (sent s) (length (recv_calls s) + Suc i) = RecvNone"
      using Suc.prems by (metis Suc_less_eq)
    then show "bus_recv e (sent ?s1) (length (recv_calls ?s1) + i) = RecvNone" by simp
  qed
  from Suc.IH [OF this] first show ?case by (simp add: Let_def)
qed

lemma get_answer_loop_first:
  "j < n \<Longrightarrow>
   (\<forall>i<j. bus_recv e (sent s) (length (recv_calls s) + i) = RecvNone) \<Longrightarrow>
   bus_recv e (sent s) (length (recv_calls s) + j) = RecvMsg m \<Longrightarrow>
   get_answer_loop e n s = (Some m, s\<lparr>recv_calls := recv_calls s @ replicate (Suc j) 1\<rparr>)"
proof (induction n arbitrary: s j)
  case 0
  then show ?case by simp
next
  case (Suc n)
  let ?s1 = "s\<lparr>recv_calls := recv_calls s @ [1]\<rparr>"
  show ?case
  proof (cases j)
    case 0
    with Suc.prems show ?thesis by (simp add: Let_def)
  next
    case (Suc j')
    with Suc.prems have first: "bus_recv e (sent s) (length (recv_calls s)) = RecvNone"
      by (metis add.right_neutral zero_less_Suc)
    have a: "j' < n" using Suc Suc.prems by simp
    have b: "\<forall>i<j'. bus_recv e (sent ?s1) (length (recv_calls ?s1) + i) = RecvNone"
    proof (intro allI impI)
      fix i assume "i < j'"
      then have "bus_recv e (sent s) (length (recv_calls s) + Suc i) = RecvNone"
        using Suc.prems(2) Suc by (metis Suc_less_eq)
      then show "bus_recv e (sent ?s1) (length (recv_calls ?s1) + i) = RecvNone" by simp
    qed
    have c: "bus_recv e (sent ?s1) (length (recv_calls ?s1) + j') = RecvMsg m"
      using Suc.prems(3) Suc by simp
    from Suc.IH [OF a b c] first Suc show ?thesis by (simp add: Let_def)
  qed
qed


text \<open>
  Claim C3. \<^verbatim>\<open>_get_answer\<close> calls \<^verbatim>\<open>bus.recv\<close> at most 5 times, each call with the
  wait of 1 second as its argument; when the first \<open>j\<close> calls (\<open>j < 5\<close>) return nothing
  and the next one returns a frame, that frame is the result and no further call is
  made; when all 5 calls return nothing the result is \<open>None\<close>, after exactly 5 calls.
\<close>

theorem get_answer_at_most_five_polls:
  "(\<exists>k\<le>5. recv_calls (snd (get_answer e s)) = recv_calls s @ replicate k 1)
   \<and> ((\<forall>i<5. bus_recv e (sent s) (length (recv_calls s) + i) = RecvNone) \<longrightarrow>
        get_answer e s = (None, s\<lparr>recv_calls := recv_calls s @ replicate 5 1\<rparr>))
   \<and> (\<forall>j<5. \<forall>m.
         (\<forall>i<j. bus_recv e (sent s) (length (recv_calls s) + i) = RecvNone)
         \<and> bus_recv e (sent s) (length (recv_calls s) + j) = RecvMsg m \<longrightarrow>
         get_answer e s = (Some m, s\<lparr>recv_calls := recv_calls s @ replicate (Suc j) 1\<rparr>))"
  unfolding get_answer_def
  using get_answer_loop_calls [of 5 e s] get_answer_loop_none [of 5 e s]
    get_answer_loop_first [of _ 5 e s]
  by blast

text \<open>The theorem on a silent channel and on a channel whose third poll brings a
  frame.\<close>

theorem get_answer_at_most_five_polls_witness:
  "get_answer silent_env (init_positioner 5)
     = (None, (init_positioner 5)\<lparr>recv_calls := [1, 1, 1, 1, 1]\<rparr>)
   \<and> get_answer third_poll_env (init_positioner 5)
     = (Some (frame 5 3 []), (init_positioner 5)\<lparr>recv_calls := [1, 1, 1]\<rparr>)"
proof -
  let ?s = "init_positioner 5"
  have r: "recv_calls ?s = []" by (simp add: init_positioner_def)
  have "\<forall>i<5. bus_recv silent_env (sent ?s) (length (recv_calls ?s) + i) = RecvNone"
    by (simp add: silent_env_def quiet_env_def)
  with get_answer_at_most_five_polls [of silent_env ?s]
  have a: "get_answer silent_env ?s = (None, ?s\<lparr>recv_calls := recv_calls ?s @ replicate 5 1\<rparr>)"
    by blast
  have "(2::nat) < 5"
    and "\<forall>i<2. bus_recv third_poll_env (sent ?s) (length (recv_calls ?s) + i) = RecvNone"
    and "bus_recv third_poll_env (sent ?s) (length (recv_calls ?s) + 2) = RecvMsg (frame 5 3 [])"
    by (simp_all add: third_poll_env_def silent_env_def quiet_env_def r)
  with get_answer_at_most_five_polls [of third_poll_env ?s]
  have b: "get_answer third_poll_env ?s
           = (Some (frame 5 3 []), ?s\<lparr>recv_calls := recv_calls ?s @ replicate (Suc 2) 1\<rparr>)"
    by blast
  from a b r show ?thesis by (simp add: numeral_eq_Suc)
qed

section \<open>Sending a command\<close>


lemma send_command_known:
  assumes "COMMANDS e command = Some opcode"
  shows "fst (send_command e command extra s) = Inr ()"
    and "sent (snd (send_command e command extra s))
         = sent s @ [frame (canid s) opcode (case extra of None \<Rightarrow> [] | Some d \<Rightarrow> d)]"
    and "recv_calls (snd (send_command e command extra s)) = recv_calls s"
    and "status (snd (send_command e command extra s)) = status s"
    and "canid (snd (send_command e command extra s)) = canid s"
    and "sleeps (snd (send_command e command extra s)) = sleeps s"
  using assms
  by (auto simp: send_command_def build_frame_id_def frame_def Let_def CAN_ID_BIT_SHIFT_def
      COMMAND_BIT_SHIFT_def split: option.splits)

lemma get_answer_unchanged:
  "sent (snd (get_answer e s)) = sent s"
  "status (snd (get_answer e s)) = status s"
  "canid (snd (get_answer e s)) = canid s"
  "sleeps (snd (get_answer e s)) = sleeps s"
  by (simp_all add: get_answer_def get_answer_loop_unchanged)


lemma get_response_code_mod:
  "get_response_code e busid =
     (case RESPONSE_CODE_NUMBER e (busid mod 2 ^ 10) of
        None \<Rightarrow> Inl KeyError | Some name \<Rightarrow> Inr name)"
proof -
  have "(2::int) ^ 10 - 1 = mask 10" by (simp add: mask_eq_exp_minus_1)
  moreover have "busid AND mask 10 = busid mod 2 ^ 10"
    by (simp add: take_bit_eq_mod flip: take_bit_eq_mask)
  ultimately have "busid AND (2 ^ 10 - 1) = busid mod 2 ^ 10" by (simp only:)
  then show ?thesis by (simp only: get_response_code_def COMMAND_BIT_SHIFT_def)
qed

section \<open>Response codes\<close>




section \<open>Paired alpha/beta commands\<close>








section \<open>Status registers\<close>

lemma field_index_nth:
  "distinct names \<Longrightarrow> i < length names \<Longrightarrow> field_index (names ! i) names = Some i"
proof (induction names arbitrary: i)
  case Nil
  then show ?case by simp
next
  case (Cons f fs)
  show ?case
  proof (cases i)
    case 0
    then show ?thesis by simp
  next
    case (Suc j)
    with Cons.prems have "j < length fs" "distinct fs" "fs ! j \<noteq> f"
      by auto
    with Cons.IH [of j] Suc show ?thesis by simp
  qed
qed

lemma flag_value_map:
  assumes "distinct names"
  shows "map (flag_value names raw) names
         = map (\<lambda>i. Some (of_bool (bit raw i))) [0..<length names]"
proof (rule nth_equalityI)
  show "length (map (flag_value names raw) names)
        = length (map (\<lambda>i. Some (of_bool (bit raw i))) [0..<length names])"
    by simp
next
  fix i assume "i < length (map (flag_value names raw) names)"
  then have i: "i < length names" by simp
  with assms show "map (flag_value names raw) names ! i
        = map (\<lambda>i. Some (of_bool (bit raw i))) [0..<length names] ! i"
    by (simp add: flag_value_def field_index_nth)
qed

lemma distinct_BootloaderFlagBits: "distinct BootloaderFlagBits"
  by code_simp

lemma length_BootloaderFlagBits: "length BootloaderFlagBits = 32"
  by (simp add: BootloaderFlagBits_def)

lemma distinct_PositionerFlagBits: "distinct PositionerFlagBits"
  by code_simp

lemma length_PositionerFlagBits: "length PositionerFlagBits = 64"
  by (simp add: PositionerFlagBits_def)

lemma bootloader_bit_8:
  "[name \<leftarrow> BootloaderFlagBits. bootloader_flag (2 ^ 8) name \<noteq> Some 0] = [''config_changed'']"
  by code_simp

lemma positioner_bit_8:
  "[name \<leftarrow> PositionerFlagBits. positioner_flag (2 ^ 8) name \<noteq> Some 0]
   = [''displacement_completed'']"
  by code_simp

lemma displacement_completed_index:
  "field_index ''displacement_completed'' PositionerFlagBits = Some 8"
  by (simp add: PositionerFlagBits_def)

lemma config_changed_index:
  "field_index ''config_changed'' BootloaderFlagBits = Some 8"
  by (simp add: BootloaderFlagBits_def)


text \<open>
  Claim C8. Reading the fields of either register in the order of their declaration
  gives the bits of the integer view from bit 0 upwards. With only bit 8 of the integer
  set, the one field of the bootloader register that does not read 0 is
  \<^verbatim>\<open>config_changed\<close>, which reads 1, and the one field of the positioner register that
  does not read 0 is \<^verbatim>\<open>displacement_completed\<close>, which reads 1.
\<close>

theorem status_flags_bit_order:
  "map (bootloader_flag raw32) BootloaderFlagBits
     = map (\<lambda>i. Some (of_bool (bit raw32 i))) [0..<32]
   \<and> map (positioner_flag raw64) PositionerFlagBits
     = map (\<lambda>i. Some (of_bool (bit raw64 i))) [0..<64]
   \<and> [name \<leftarrow> BootloaderFlagBits. bootloader_flag (2 ^ 8) name \<noteq> Some 0]
     = [''config_changed'']
   \<and> bootloader_flag (2 ^ 8) ''config_changed'' = Some 1
   \<and> [name \<leftarrow> PositionerFlagBits. positioner_flag (2 ^ 8) name \<noteq> Some 0]
     = [''displacement_completed'']
   \<and> positioner_flag (2 ^ 8) ''displacement_completed'' = Some 1"
proof (intro conjI)
  show "map (bootloader_flag raw32) BootloaderFlagBits
        = map (\<lambda>i. Some (of_bool (bit raw32 i))) [0..<32]"
    using flag_value_map [OF distinct_BootloaderFlagBits, of raw32]
    by (simp only: bootloader_flag_def [abs_def] length_BootloaderFlagBits)
  show "map (positioner_flag raw64) PositionerFlagBits
        = map (\<lambda>i. Some (of_bool (bit raw64 i))) [0..<64]"
    using flag_value_map [OF distinct_PositionerFlagBits, of raw64]
    by (simp only: positioner_flag_def [abs_def] length_PositionerFlagBits)
  show "[name \<leftarrow> BootloaderFlagBits. bootloader_flag (2 ^ 8) name \<noteq> Some 0]
        = [''config_changed'']"
    by (rule bootloader_bit_8)
  show "bootloader_flag (2 ^ 8) ''config_changed'' = Some 1"
    by (simp add: bootloader_flag_def flag_value_def config_changed_index)
  show "[name \<leftarrow> PositionerFlagBits. positioner_flag (2 ^ 8) name \<noteq> Some 0]
        = [''displacement_completed'']"
    by (rule positioner_bit_8)
  show "positioner_flag (2 ^ 8) ''displacement_completed'' = Some 1"
    by (simp add: positioner_flag_def flag_value_def displacement_completed_index)
qed

section \<open>Waiting for the end of a move\<close>



lemma get_answer_loop_from_bus:
  "get_answer_loop e n s = (Some m, s') \<Longrightarrow> \<exists>k. bus_recv e (sent s) k = RecvMsg m"
proof (induction n arbitrary: s)
  case 0
  then show ?case by simp
next
  case (Suc n)
  show ?case
  proof (cases "bus_recv e (sent s) (length (recv_calls s))")
    case RecvNone
    with Suc.prems
    have "get_answer_loop e n (s\<lparr>recv_calls := recv_calls s @ [1]\<rparr>) = (Some m, s')"
      by (simp add: Let_def)
    from Suc.IH [OF this] show ?thesis by simp
  next
    case (RecvMsg m')
    with Suc.prems have "m' = m" by (simp add: Let_def)
    with RecvMsg show ?thesis by blast
  next
    case (RecvRaise exc)
    with Suc.prems show ?thesis by (simp add: Let_def)
  qed
qed

lemma get_answer_from_bus:
  "get_answer e s = (Some m, s') \<Longrightarrow> \<exists>k. bus_recv e (sent s) k = RecvMsg m"
  unfolding get_answer_def by (rule get_answer_loop_from_bus)






section \<open>Trajectory upload\<close>

lemma get_answer_known_code:
  assumes "known_replies e" and "get_answer e s = (Some answer, s')"
  shows "\<exists>name. get_response_code e (arbitration_id answer) = Inr name"
proof -
  from get_answer_from_bus [OF assms(2)] obtain k
    where "bus_recv e (sent s) k = RecvMsg answer" by blast
  with assms(1) obtain name
    where "RESPONSE_CODE_NUMBER e (arbitration_id answer mod 2 ^ 10) = Some name"
    unfolding known_replies_def by blast
  then show ?thesis by (simp add: get_response_code_mod)
qed

lemma send_points_sent:
  assumes "COMMANDS e ''SEND_TRAJECTORY_DATA'' = Some od" and "known_replies e"
    and "\<forall>c \<in> set points. waypoint_fits (float_round e) c"
  shows "fst (send_points e points s) = Inr ()
       \<and> canid (snd (send_points e points s)) = canid s
       \<and> sent (snd (send_points e points s))
         = sent s @ map (\<lambda>c. frame (canid s) od (waypoint_payload (float_round e) c)) points"
  using assms(3)
proof (induction points arbitrary: s)
  case Nil
  then show ?case by simp
next
  case (Cons c rest)
  let ?payload = "waypoint_payload (float_round e) c"
  from Cons.prems have fits: "waypoint_fits (float_round e) c"
    and rest: "\<forall>c \<in> set rest. waypoint_fits (float_round e) c"
    by simp_all
  have pk: "struct_pack_ii (angle_to_position (float_round e) (fst c))
              (seconds_to_timestamp (float_round e) (snd c)) = Inr ?payload"
    using fits by (simp add: waypoint_fits_def int32_def struct_pack_ii_def waypoint_payload_def)
  obtain s1 where sc: "send_command e ''SEND_TRAJECTORY_DATA'' (Some ?payload) s = (Inr (), s1)"
    using send_command_known(1) [OF assms(1), of "Some ?payload" s]
    by (cases "send_command e ''SEND_TRAJECTORY_DATA'' (Some ?payload) s") auto
  then have s1: "sent s1 = sent s @ [frame (canid s) od ?payload]" "canid s1 = canid s"
    using send_command_known(2,5) [OF assms(1), of "Some ?payload" s] by simp_all
  obtain r s2 where ga: "get_answer e s1 = (r, s2)" by (cases "get_answer e s1")
  then have s2: "sent s2 = sent s1" "canid s2 = canid s1"
    using get_answer_unchanged(1,3) [of e s1] by simp_all
  have step: "send_points e (c # rest) s = send_points e rest s2"
  proof (cases r)
    case None
    then show ?thesis by (simp add: Let_def pk sc ga)
  next
    case (Some answer)
    with get_answer_known_code [OF assms(2)] ga obtain name
      where "get_response_code e (arbitration_id answer) = Inr name" by blast
    with Some show ?thesis by (simp add: Let_def pk sc ga)
  qed
  show ?case unfolding step using Cons.IH [OF rest, of s2] s1 s2 by simp
qed

lemma send_trajectory_not_acknowledged:
  assumes "COMMANDS e ''SEND_TRAJECTORY_NEW'' = Some on"
    and "int (length alpha) < 2 ^ 31" and "int (length beta) < 2 ^ 31"
    and "fst (get_answer e (snd (send_command e ''SEND_TRAJECTORY_NEW''
           (Some (le_bytes 4 (int (length alpha)) @ le_bytes 4 (int (length beta)))) s))) = None"
  shows "fst (send_trajectory e alpha beta s) = Inr ()
       \<and> sent (snd (send_trajectory e alpha beta s))
         = sent s @ [frame (canid s) on
                       (le_bytes 4 (int (length alpha)) @ le_bytes 4 (int (length beta)))]"
proof -
  let ?header = "le_bytes 4 (int (length alpha)) @ le_bytes 4 (int (length beta))"
  have pk: "struct_pack_ii (int (length alpha)) (int (length beta)) = Inr ?header"
    using assms(2,3) by (simp add: struct_pack_ii_def)
  obtain s1 where sc: "send_command e ''SEND_TRAJECTORY_NEW'' (Some ?header) s = (Inr (), s1)"
    using send_command_known(1) [OF assms(1), of "Some ?header" s]
    by (cases "send_command e ''SEND_TRAJECTORY_NEW'' (Some ?header) s") auto
  then have s1: "sent s1 = sent s @ [frame (canid s) on ?header]"
    using send_command_known(2) [OF assms(1), of "Some ?header" s] by simp
  obtain s2 where ga: "get_answer e s1 = (None, s2)"
    using assms(4) sc by (cases "get_answer e s1") auto
  then have "sent s2 = sent s1" using get_answer_unchanged(1) [of e s1] by simp
  with s1 show ?thesis by (simp add: send_trajectory_def Let_def pk sc ga)
qed

lemma send_trajectory_acknowledged:
  assumes "COMMANDS e ''SEND_TRAJECTORY_NEW'' = Some on"
    and "COMMANDS e ''SEND_TRAJECTORY_DATA'' = Some od"
    and "COMMANDS e ''SEND_TRAJECTORY_DATA_END'' = Some oe"
    and "known_replies e"
    and "\<forall>c \<in> set (alpha @ beta). waypoint_fits (float_round e) c"
    and "int (length alpha) < 2 ^ 31" and "int (length beta) < 2 ^ 31"
    and "fst (get_answer e (snd (send_command e ''SEND_TRAJECTORY_NEW''
           (Some (le_bytes 4 (int (length alpha)) @ le_bytes 4 (int (length beta)))) s))) \<noteq> None"
  shows "fst (send_trajectory e alpha beta s) = Inr ()
       \<and> sent (snd (send_trajectory e alpha beta s))
         = sent s
           @ [frame (canid s) on (le_bytes 4 (int (length alpha)) @ le_bytes 4 (int (length beta)))]
           @ map (\<lambda>c. frame (canid s) od (waypoint_payload (float_round e) c)) alpha
           @ map (\<lambda>c. frame (canid s) od (waypoint_payload (float_round e) c)) beta
           @ [frame (canid s) oe []]"
proof -
  let ?header = "le_bytes 4 (int (length alpha)) @ le_bytes 4 (int (length beta))"
  let ?point = "\<lambda>c. frame (canid s) od (waypoint_payload (float_round e) c)"
  have pk: "struct_pack_ii (int (length alpha)) (int (length beta)) = Inr ?header"
    using assms(6,7) by (simp add: struct_pack_ii_def)
  obtain s1 where sc: "send_command e ''SEND_TRAJECTORY_NEW'' (Some ?header) s = (Inr (), s1)"
    using send_command_known(1) [OF assms(1), of "Some ?header" s]
    by (cases "send_command e ''SEND_TRAJECTORY_NEW'' (Some ?header) s") auto
  then have s1: "sent s1 = sent s @ [frame (canid s) on ?header]" "canid s1 = canid s"
    using send_command_known(2,5) [OF assms(1), of "Some ?header" s] by simp_all
  obtain answer s2 where ga: "get_answer e s1 = (Some answer, s2)"
    using assms(8) sc by (cases "get_answer e s1") auto
  then have s2: "sent s2 = sent s1" "canid s2 = canid s1"
    using get_answer_unchanged(1,3) [of e s1] by simp_all
  from get_answer_known_code [OF assms(4) ga] obtain name
    where rc: "get_response_code e (arbitration_id answer) = Inr name" by blast
  from assms(5) have fa: "\<forall>c \<in> set alpha. waypoint_fits (float_round e) c"
    and fb: "\<forall>c \<in> set beta. waypoint_fits (float_round e) c" by simp_all
  obtain s3 where pa: "send_points e alpha s2 = (Inr (), s3)"
    using send_points_sent [OF assms(2,4) fa, of s2] by (cases "send_points e alpha s2") auto
  then have s3: "sent s3 = sent s2 @ map ?point alpha" "canid s3 = canid s"
    using send_points_sent [OF assms(2,4) fa, of s2] s1 s2 by simp_all
  obtain s4 where pb: "send_points e beta s3 = (Inr (), s4)"
    using send_points_sent [OF assms(2,4) fb, of s3] by (cases "send_points e beta s3") auto
  then have s4: "sent s4 = sent s3 @ map ?point beta" "canid s4 = canid s"
    using send_points_sent [OF assms(2,4) fb, of s3] s3 by simp_all
  obtain s5 where se: "send_command e ''SEND_TRAJECTORY_DATA_END'' None s4 = (Inr (), s5)"
    using send_command_known(1) [OF assms(3), of None s4]
    by (cases "send_command e ''SEND_TRAJECTORY_DATA_END'' None s4") auto
  then have s5: "sent s5 = sent s4 @ [frame (canid s) oe []]"
    using send_command_known(2) [OF assms(3), of None s4] s4 by simp
  obtain r s6 where ge: "get_answer e s5 = (r, s6)" by (cases "get_answer e s5")
  then have s6: "sent s6 = sent s5" using get_answer_unchanged(1) [of e s5] by simp
  have "send_trajectory e alpha beta s = (Inr (), s6)"
  proof (cases r)
    case None
    then show ?thesis by (simp add: send_trajectory_def Let_def pk sc ga rc pa pb se ge)
  next
    case (Some answer2)
    with get_answer_known_code [OF assms(4)] ge obtain name2
      where "get_response_code e (arbitration_id answer2) = Inr name2" by blast
    with Some show ?thesis by (simp add: send_trajectory_def Let_def pk sc ga rc pa pb se ge)
  qed
  with s1 s2 s3 s4 s5 s6 show ?thesis by simp
qed

end
